theory Spec2Isabelle
  imports Main "HOL-Library.Word"
begin

section \<open>JavaScript strings\<close>

text \<open>
  A JavaScript string is a sequence of UTF-16 code units. The string methods the bot
  uses (\<open>includes\<close>, \<open>startsWith\<close>, \<open>split\<close>, \<open>trim\<close>, \<open>replace\<close>) all work on
  code units, so a string is a list of 16-bit words. \<open>js\<close> embeds an ASCII literal.
\<close>

type_synonym code_unit = "16 word"
type_synonym jsstring = "code_unit list"

definition js :: "string \<Rightarrow> jsstring" where
  "js s = map of_char s"

text \<open>\<open>s.startsWith(p)\<close>.\<close>

definition startsWith :: "jsstring \<Rightarrow> jsstring \<Rightarrow> bool" where
  "startsWith s p \<longleftrightarrow> take (length p) s = p"

text \<open>\<open>s.includes(p)\<close>: \<open>p\<close> occurs in \<open>s\<close> at some position, compared code unit by code unit.\<close>

fun str_includes :: "jsstring \<Rightarrow> jsstring \<Rightarrow> bool" where
  "str_includes [] p = (p = [])"
| "str_includes (c # cs) p = (startsWith (c # cs) p \<or> str_includes cs p)"

text \<open>
  \<open>s.split(sep)\<close> for a separator of one code unit: the string is cut at every
  occurrence of the separator, and empty pieces are kept. The result is never empty.
\<close>

fun split_str :: "code_unit \<Rightarrow> jsstring \<Rightarrow> jsstring list" where
  "split_str sep [] = [[]]"
| "split_str sep (c # cs) =
     (if c = sep then [] # split_str sep cs
      else (case split_str sep cs of
              [] \<Rightarrow> [[c]]
            | t # ts \<Rightarrow> (c # t) # ts))"

text \<open>
  \<open>s.trim()\<close> removes the white space and line terminators of ECMAScript from both ends.
\<close>

definition isWhiteSpace :: "code_unit \<Rightarrow> bool" where
  "isWhiteSpace c \<longleftrightarrow>
     c = 0x0009 \<or> c = 0x000A \<or> c = 0x000B \<or> c = 0x000C \<or> c = 0x000D \<or> c = 0x0020 \<or>
     c = 0x00A0 \<or> c = 0x1680 \<or> (0x2000 \<le> c \<and> c \<le> 0x200A) \<or>
     c = 0x2028 \<or> c = 0x2029 \<or> c = 0x202F \<or> c = 0x205F \<or> c = 0x3000 \<or> c = 0xFEFF"

definition trim :: "jsstring \<Rightarrow> jsstring" where
  "trim s = rev (dropWhile isWhiteSpace (rev (dropWhile isWhiteSpace s)))"

text \<open>
  \<open>text.replace(new RegExp(botUsername, "gi"), "")\<close>. The bot's user name is \<open>@\<close>
  followed by letters, digits and underscores (\<open>mention_token\<close> below), so the pattern
  has no regular-expression operator and matches itself, letter case ignored. For a
  pattern of ASCII characters the case folding of a regular expression without the
  \<open>u\<close> flag identifies exactly an ASCII letter and its other case: a code unit
  from 128 on never folds to an ASCII one. \<open>canonicalize\<close> is that folding. With the
  \<open>g\<close> flag every match is removed, scanning from the left and resuming after the
  end of each match; the text left over is not scanned again.
\<close>

definition canonicalize :: "code_unit \<Rightarrow> code_unit" where
  "canonicalize c = (if 0x61 \<le> c \<and> c \<le> 0x7A then c - 0x20 else c)"

definition matchesAt :: "jsstring \<Rightarrow> jsstring \<Rightarrow> bool" where
  "matchesAt p s \<longleftrightarrow>
     length p \<le> length s \<and> map canonicalize (take (length p) s) = map canonicalize p"

fun replaceAll_ci :: "jsstring \<Rightarrow> jsstring \<Rightarrow> jsstring" where
  "replaceAll_ci p [] = []"
| "replaceAll_ci p (c # cs) =
     (if p \<noteq> [] \<and> matchesAt p (c # cs) then replaceAll_ci p (drop (length p) (c # cs))
      else c # replaceAll_ci p cs)"

definition isWordChar :: "code_unit \<Rightarrow> bool" where
  "isWordChar c \<longleftrightarrow>
     (0x30 \<le> c \<and> c \<le> 0x39) \<or> (0x41 \<le> c \<and> c \<le> 0x5A) \<or> (0x61 \<le> c \<and> c \<le> 0x7A) \<or> c = 0x5F"

text \<open>
  The values \<open>botUsername\<close> takes: the initial \<open>"@CpTrackBuddybot"\<close>, or \<open>@\<close> and the
  user name the chat platform reports for the bot.
\<close>

definition mention_token :: "jsstring \<Rightarrow> bool" where
  "mention_token u \<longleftrightarrow>
     (case u of [] \<Rightarrow> False | c # name \<Rightarrow> c = 0x40 \<and> name \<noteq> [] \<and> list_all isWordChar name)"

text \<open>
  A number in a template literal, for the integers the bot formats (a contest id, a
  count): the decimal digits, with a minus sign in front of a negative one. This is
  what JavaScript prints for an integer below \<open>10\<^sup>2\<^sup>1\<close> in absolute value.
\<close>

definition digitUnit :: "nat \<Rightarrow> code_unit" where
  "digitUnit d = of_nat (48 + d)"

fun digitsOf :: "nat \<Rightarrow> jsstring" where
  "digitsOf n =
     (if n < 10 then [digitUnit n] else digitsOf (n div 10) @ [digitUnit (n mod 10)])"

declare digitsOf.simps [simp del]

definition numberToString :: "int \<Rightarrow> jsstring" where
  "numberToString n = (if n < 0 then 0x2D # digitsOf (nat (- n)) else digitsOf (nat n))"

section \<open>Data\<close>

text \<open>
  The judge's answer to \<open>user.status\<close>: a status and the list of submissions. The
  contest id of a problem is an integer and may be missing (\<open>undefined\<close> in the
  template literal of the key), as the verdict of a submission may; the index of a
  problem is a string.
\<close>

record problem =
  contestId :: "int option"
  index :: jsstring

record submission =
  verdict :: "jsstring option"
  creationTimeSeconds :: int
  problem :: problem

record api_data =
  status :: jsstring
  result :: "submission list"

text \<open>
  A document of the \<open>groups\<close> collection, and the chat platform's message. The
  fields \<open>msg.chat.id\<close>, \<open>msg.chat.type\<close> and \<open>msg.text\<close> are \<open>chat_id\<close>,
  \<open>chat_type\<close> and \<open>msg_text\<close> here; a field that may be missing is an option.
\<close>

record tracked =
  handle :: jsstring

record group =
  groupId :: int
  groupName :: "jsstring option"
  users :: "tracked list option"

record chat =
  chat_id :: int
  chat_type :: jsstring
  title :: "jsstring option"

record message =
  chat :: chat
  msg_text :: "jsstring option"

record outgoing =
  chatId :: int
  body :: jsstring
  parse_mode :: "jsstring option"

datatype error =
  RequestFailed | InvalidHandleOrApiError | StoreUnavailable | SendFailed | TypeError

datatype store_op = FindOne int | InsertOne group | UpdateOne int "tracked list"

text \<open>
  What the handler cannot decide: the judge's answer for a handle (or the failure of the
  request), the timestamp \<open>new Date().setHours(0, 0, 0, 0)\<close> of local midnight in
  milliseconds, and whether a call to the database or to the chat platform is rejected.
  A call of \<open>sendMessage\<close> is numbered by the calls logged before it.
\<close>

record env =
  axios_get :: "jsstring \<Rightarrow> error + api_data"
  localMidnightMs :: int
  findOne_fails :: bool
  insertOne_fails :: bool
  updateOne_fails :: bool
  sendMessage_fails :: "nat \<Rightarrow> bool"

text \<open>
  The module's state and what the handler does to the outside: \<open>botUsername\<close>, the
  collection (\<open>None\<close> while \<open>groupsCollection\<close> is undefined), and three logs, each
  in the order of the calls: the calls of \<open>bot.sendMessage\<close> (whether the platform
  accepts them or not), the handles \<open>getTodaySolvedCount\<close> was called with, and the calls
  to the collection. What the handler writes to the console is left out.
\<close>

record world =
  botUsername :: jsstring
  groupsCollection :: "group list option"
  sent :: "outgoing list"
  judgeCalls :: "jsstring list"
  storeLog :: "store_op list"

section \<open>Judge client\<close>

definition startOfToday :: "env \<Rightarrow> int" where
  "startOfToday e = localMidnightMs e div 1000"

definition problemId :: "problem \<Rightarrow> jsstring" where
  "problemId p =
     (case contestId p of None \<Rightarrow> js ''undefined'' | Some n \<Rightarrow> numberToString n)
       @ js ''-'' @ index p"

definition accepted_today :: "int \<Rightarrow> submission \<Rightarrow> bool" where
  "accepted_today t sub \<longleftrightarrow> verdict sub = Some (js ''OK'') \<and> t \<le> creationTimeSeconds sub"

fun collectSolved :: "int \<Rightarrow> submission list \<Rightarrow> jsstring set \<Rightarrow> jsstring set" where
  "collectSolved t [] solved = solved"
| "collectSolved t (sub # subs) solved =
     collectSolved t subs
       (if accepted_today t sub then insert (problemId (problem sub)) solved else solved)"

text \<open>
  \<open>getTodaySolvedCount(handle)\<close>: what the call returns, or the error it throws. The
  request itself is logged by \<open>callJudge\<close>, which the report loop uses.
\<close>

definition getTodaySolvedCount :: "env \<Rightarrow> jsstring \<Rightarrow> error + nat" where
  "getTodaySolvedCount e h =
     (case axios_get e h of
        Inl err \<Rightarrow> Inl err
      | Inr data \<Rightarrow>
          if status data \<noteq> js ''OK'' then Inl InvalidHandleOrApiError
          else Inr (card (collectSolved (startOfToday e) (result data) {})))"

definition callJudge :: "env \<Rightarrow> jsstring \<Rightarrow> world \<Rightarrow> (error + nat) \<times> world" where
  "callJudge e h w = (getTodaySolvedCount e h, w\<lparr>judgeCalls := judgeCalls w @ [h]\<rparr>)"

section \<open>Group store and chat platform\<close>

definition sendMessage ::
  "env \<Rightarrow> int \<Rightarrow> jsstring \<Rightarrow> jsstring option \<Rightarrow> world \<Rightarrow> error option \<times> world" where
  "sendMessage e cid txt pm w =
     (if sendMessage_fails e (length (sent w)) then Some SendFailed else None,
      w\<lparr>sent := sent w @ [\<lparr>chatId = cid, body = txt, parse_mode = pm\<rparr>]\<rparr>)"

text \<open>\<open>groupsCollection && await groupsCollection.findOne({ groupId: chatId })\<close>.\<close>

definition findGroup :: "env \<Rightarrow> int \<Rightarrow> world \<Rightarrow> (error + group option) \<times> world" where
  "findGroup e gid w =
     (case groupsCollection w of
        None \<Rightarrow> (Inr None, w)
      | Some docs \<Rightarrow>
          (let w' = w\<lparr>storeLog := storeLog w @ [FindOne gid]\<rparr> in
           if findOne_fails e then (Inl StoreUnavailable, w')
           else (Inr (find (\<lambda>g. groupId g = gid) docs), w')))"

definition insertOne :: "env \<Rightarrow> group \<Rightarrow> world \<Rightarrow> error option \<times> world" where
  "insertOne e g w =
     (case groupsCollection w of
        None \<Rightarrow> (Some TypeError, w)
      | Some docs \<Rightarrow>
          (let w' = w\<lparr>storeLog := storeLog w @ [InsertOne g]\<rparr> in
           if insertOne_fails e then (Some StoreUnavailable, w')
           else (None, w'\<lparr>groupsCollection := Some (docs @ [g])\<rparr>)))"

fun setUsers :: "int \<Rightarrow> tracked list \<Rightarrow> group list \<Rightarrow> group list" where
  "setUsers gid us [] = []"
| "setUsers gid us (g # gs) =
     (if groupId g = gid then g\<lparr>users := Some us\<rparr> # gs else g # setUsers gid us gs)"

definition updateOne :: "env \<Rightarrow> int \<Rightarrow> tracked list \<Rightarrow> world \<Rightarrow> error option \<times> world" where
  "updateOne e gid us w =
     (case groupsCollection w of
        None \<Rightarrow> (Some TypeError, w)
      | Some docs \<Rightarrow>
          (let w' = w\<lparr>storeLog := storeLog w @ [UpdateOne gid us]\<rparr> in
           if updateOne_fails e then (Some StoreUnavailable, w')
           else (None, w'\<lparr>groupsCollection := Some (setUsers gid us docs)\<rparr>)))"

section \<open>Message handler\<close>

definition usageText :: jsstring where
  "usageText = 0x274C # js '' Please provide a Codeforces handle. Example: `/add tourist`''"

definition createdText :: "jsstring \<Rightarrow> jsstring" where
  "createdText h = 0x2705 # js '' Added '' @ h @ js '' and created new tracking for this group.''"

definition alreadyText :: "jsstring \<Rightarrow> jsstring" where
  "alreadyText h = [0x26A0, 0xFE0F] @ js '' '' @ h @ js '' is already being tracked.''"

definition addedText :: "jsstring \<Rightarrow> jsstring" where
  "addedText h = 0x2705 # js '' Added '' @ h @ js '' to tracking list.''"

definition addFailedText :: jsstring where
  "addFailedText = 0x274C # js '' Something went wrong while adding the handle.''"

definition solvedText :: "jsstring \<Rightarrow> nat \<Rightarrow> jsstring" where
  "solvedText h n =
     [0xD83D, 0xDCDD] @ js '' '' @ h @ js '' solved '' @ numberToString (int n)
       @ js '' problems today.''"

definition fetchFailedText :: "jsstring \<Rightarrow> jsstring" where
  "fetchFailedText h = 0x274C # js '' Could not fetch data for '' @ h @ js ''.''"

definition noUsersText :: jsstring where
  "noUsersText =
     js ''No users are being tracked in this group. Use /add <handle> to add someone.''"

definition reportFailedText :: jsstring where
  "reportFailedText =
     0x274C # js '' Could not fetch Codeforces data. Make sure the handles are correct.''"

text \<open>\<open>msg.text || ""\<close>, the gate, and the text with the mention removed.\<close>

definition textOf :: "message \<Rightarrow> jsstring" where
  "textOf msg = (case msg_text msg of None \<Rightarrow> [] | Some t \<Rightarrow> t)"

definition ignored :: "world \<Rightarrow> message \<Rightarrow> bool" where
  "ignored w msg \<longleftrightarrow>
     chat_type (chat msg) \<noteq> js ''private'' \<and> \<not> str_includes (textOf msg) (botUsername w)"

definition cleanedText :: "world \<Rightarrow> message \<Rightarrow> jsstring" where
  "cleanedText w msg = trim (replaceAll_ci (botUsername w) (textOf msg))"

text \<open>\<open>cleanedText.split(" ")[1]\<close>; \<open>None\<close> is \<open>undefined\<close>.\<close>

definition handleArg :: "jsstring \<Rightarrow> jsstring option" where
  "handleArg c = (case split_str 0x20 c of _ # h # _ \<Rightarrow> Some h | _ \<Rightarrow> None)"

text \<open>
  How the \<open>try\<close> block of the add command ends: it runs to its end, it throws (an
  awaited call was rejected, or a property of \<open>undefined\<close> was read) and the \<open>catch\<close>
  block runs, or it returns the promise of a \<open>sendMessage\<close> that is not awaited, whose
  rejection the \<open>catch\<close> block does not see.
\<close>

datatype completion = Finished | Thrown error | Returned "error option"

definition addToGroup :: "env \<Rightarrow> message \<Rightarrow> jsstring \<Rightarrow> world \<Rightarrow> completion \<times> world" where
  "addToGroup e msg h w =
     (let cid = chat_id (chat msg) in
      case findGroup e cid w of
        (Inl err, w1) \<Rightarrow> (Thrown err, w1)
      | (Inr None, w1) \<Rightarrow>
          (case insertOne e
                  \<lparr>groupId = cid, groupName = title (chat msg), users = Some [\<lparr>handle = h\<rparr>]\<rparr> w1 of
             (Some err, w2) \<Rightarrow> (Thrown err, w2)
           | (None, w2) \<Rightarrow>
               (case sendMessage e cid (createdText h) None w2 of
                  (Some err, w3) \<Rightarrow> (Thrown err, w3)
                | (None, w3) \<Rightarrow> (Finished, w3)))
      | (Inr (Some existing), w1) \<Rightarrow>
          (case users existing of
             None \<Rightarrow> (Thrown TypeError, w1)
           | Some us \<Rightarrow>
               (case find (\<lambda>u. handle u = h) us of
                  Some already \<Rightarrow>
                    (case sendMessage e cid (alreadyText h) None w1 of
                       (r, w2) \<Rightarrow> (Returned r, w2))
                | None \<Rightarrow>
                    (case updateOne e cid (us @ [\<lparr>handle = h\<rparr>]) w1 of
                       (Some err, w2) \<Rightarrow> (Thrown err, w2)
                     | (None, w2) \<Rightarrow>
                         (case sendMessage e cid (addedText h) None w2 of
                            (Some err, w3) \<Rightarrow> (Thrown err, w3)
                          | (None, w3) \<Rightarrow> (Finished, w3))))))"

text \<open>The \<open>try\<close> block with its \<open>catch\<close> block, for a handle that is given.\<close>

definition addHandle :: "env \<Rightarrow> message \<Rightarrow> jsstring \<Rightarrow> world \<Rightarrow> error option \<times> world" where
  "addHandle e msg h w =
     (case addToGroup e msg h w of
        (Finished, w1) \<Rightarrow> (None, w1)
      | (Thrown err, w1) \<Rightarrow> sendMessage e (chat_id (chat msg)) addFailedText None w1
      | (Returned r, w1) \<Rightarrow> (r, w1))"

text \<open>
  The branch of the add command, for the cleaned text \<open>c\<close>: \<open>!handle\<close> holds for
  \<open>undefined\<close> and for the empty string.
\<close>

definition addCommand :: "env \<Rightarrow> message \<Rightarrow> jsstring \<Rightarrow> world \<Rightarrow> error option \<times> world" where
  "addCommand e msg c w =
     (case handleArg c of
        None \<Rightarrow> sendMessage e (chat_id (chat msg)) usageText (Some (js ''Markdown'')) w
      | Some h \<Rightarrow>
          if h = [] then sendMessage e (chat_id (chat msg)) usageText (Some (js ''Markdown'')) w
          else addHandle e msg h w)"

text \<open>
  One turn of the report loop: the \<open>try\<close> block asks the judge and sends the count; if
  either is rejected, the \<open>catch\<close> block sends the failure text for the handle. Only a
  rejection inside the \<open>catch\<close> block leaves the loop.
\<close>

definition reportOne :: "env \<Rightarrow> int \<Rightarrow> tracked \<Rightarrow> world \<Rightarrow> error option \<times> world" where
  "reportOne e cid u w =
     (case callJudge e (handle u) w of
        (Inl err, w1) \<Rightarrow> sendMessage e cid (fetchFailedText (handle u)) None w1
      | (Inr solve, w1) \<Rightarrow>
          (case sendMessage e cid (solvedText (handle u) solve) None w1 of
             (Some err, w2) \<Rightarrow> sendMessage e cid (fetchFailedText (handle u)) None w2
           | (None, w2) \<Rightarrow> (None, w2)))"

fun reportLoop :: "env \<Rightarrow> int \<Rightarrow> tracked list \<Rightarrow> world \<Rightarrow> error option \<times> world" where
  "reportLoop e cid [] w = (None, w)"
| "reportLoop e cid (u # us) w =
     (case reportOne e cid u w of
        (Some err, w1) \<Rightarrow> (Some err, w1)
      | (None, w1) \<Rightarrow> reportLoop e cid us w1)"

definition reportBody :: "env \<Rightarrow> int \<Rightarrow> world \<Rightarrow> error option \<times> world" where
  "reportBody e cid w =
     (case findGroup e cid w of
        (Inl err, w1) \<Rightarrow> (Some err, w1)
      | (Inr grpdata, w1) \<Rightarrow>
          (case grpdata of
             None \<Rightarrow> sendMessage e cid noUsersText None w1
           | Some g \<Rightarrow>
               (case users g of
                  None \<Rightarrow> sendMessage e cid noUsersText None w1
                | Some us \<Rightarrow>
                    if 0 < length us then reportLoop e cid us w1
                    else sendMessage e cid noUsersText None w1)))"

definition report :: "env \<Rightarrow> message \<Rightarrow> world \<Rightarrow> error option \<times> world" where
  "report e msg w =
     (let cid = chat_id (chat msg) in
      case reportBody e cid w of
        (Some err, w1) \<Rightarrow> sendMessage e cid reportFailedText None w1
      | (None, w1) \<Rightarrow> (None, w1))"

text \<open>
  The handler of \<open>bot.on("message")\<close>. The result is the state after the message and
  how the handler's promise settles: \<open>None\<close> when it resolves, the error when it is
  rejected.
\<close>

definition onMessage :: "env \<Rightarrow> message \<Rightarrow> world \<Rightarrow> error option \<times> world" where
  "onMessage e msg w =
     (if ignored w msg then (None, w)
      else if startsWith (cleanedText w msg) (js ''/add'')
        then addCommand e msg (cleanedText w msg) w
        else report e msg w)"

section \<open>Examples and notions used in the proofs\<close>




text \<open>
  Three accepted submissions: two to problem 1520 A after midnight, one to problem 4 B
  before it. \<open>demoWorld\<close> is the state at startup, before the first message, with the
  given collection. In \<open>demoEnv\<close> no call to the database or to the chat platform is
  rejected.
\<close>

definition demoSubmissions :: "submission list" where
  "demoSubmissions =
    [\<lparr>verdict = Some (js ''OK''), creationTimeSeconds = 1700003600,
       problem = \<lparr>contestId = Some 1520, index = js ''A''\<rparr>\<rparr>,
     \<lparr>verdict = Some (js ''OK''), creationTimeSeconds = 1700000100,
       problem = \<lparr>contestId = Some 1520, index = js ''A''\<rparr>\<rparr>,
     \<lparr>verdict = Some (js ''OK''), creationTimeSeconds = 1699990000,
       problem = \<lparr>contestId = Some 4, index = js ''B''\<rparr>\<rparr>]"

definition demoWorld :: "group list option \<Rightarrow> world" where
  "demoWorld docs =
     \<lparr>botUsername = js ''@CpTrackBuddybot'', groupsCollection = docs, sent = [],
      judgeCalls = [], storeLog = []\<rparr>"

definition demoEnv :: "(jsstring \<Rightarrow> error + api_data) \<Rightarrow> env" where
  "demoEnv judge =
     \<lparr>axios_get = judge, localMidnightMs = 1700000000000, findOne_fails = False,
      insertOne_fails = False, updateOne_fails = False, sendMessage_fails = (\<lambda>_. False)\<rparr>"

text \<open>
  The text contains the pattern in some letter case: the regular expression of the
  handler matches at some position.
\<close>

fun str_includes_ci :: "jsstring \<Rightarrow> jsstring \<Rightarrow> bool" where
  "str_includes_ci [] p = (p = [])"
| "str_includes_ci (c # cs) p = (matchesAt p (c # cs) \<or> str_includes_ci cs p)"

text \<open>A message with the given text, in a group chat and in a one-to-one chat.\<close>

definition groupMessage :: "jsstring \<Rightarrow> message" where
  "groupMessage t =
     \<lparr>chat = \<lparr>chat_id = - 1001, chat_type = js ''supergroup'', title = Some (js ''cf-team'')\<rparr>,
      msg_text = Some t\<rparr>"

definition privateMessage :: "jsstring \<Rightarrow> message" where
  "privateMessage t =
     \<lparr>chat = \<lparr>chat_id = 42, chat_type = js ''private'', title = None\<rparr>, msg_text = Some t\<rparr>"

text \<open>
  The document the add command inserts for a chat without one, and a message the
  handler sends back to the chat of \<open>msg\<close> without options.
\<close>

definition newGroup :: "message \<Rightarrow> jsstring \<Rightarrow> group" where
  "newGroup msg h =
     \<lparr>groupId = chat_id (chat msg), groupName = title (chat msg), users = Some [\<lparr>handle = h\<rparr>]\<rparr>"

definition reply :: "message \<Rightarrow> jsstring \<Rightarrow> outgoing" where
  "reply msg txt = \<lparr>chatId = chat_id (chat msg), body = txt, parse_mode = None\<rparr>"

text \<open>The document of the chat of \<open>groupMessage\<close>, tracking the given handles.\<close>

definition demoGroup :: "jsstring list \<Rightarrow> group" where
  "demoGroup hs =
     \<lparr>groupId = - 1001, groupName = Some (js ''cf-team''),
      users = Some (map (\<lambda>h. \<lparr>handle = h\<rparr>) hs)\<rparr>"


text \<open>
  A judge that knows \<open>h1\<close>, with three problems solved today (1520 A, 1520 B and a
  problem without contest id), and rejects the request for any other handle.
\<close>

definition demoJudge :: "jsstring \<Rightarrow> error + api_data" where
  "demoJudge h =
     (if h = js ''h1'' then
        Inr \<lparr>status = js ''OK'',
             result = demoSubmissions @
               [\<lparr>verdict = Some (js ''OK''), creationTimeSeconds = 1700000000,
                  problem = \<lparr>contestId = Some 1520, index = js ''B''\<rparr>\<rparr>,
                \<lparr>verdict = Some (js ''WRONG_ANSWER''), creationTimeSeconds = 1700000500,
                  problem = \<lparr>contestId = Some 1520, index = js ''C''\<rparr>\<rparr>,
                \<lparr>verdict = Some (js ''OK''), creationTimeSeconds = 1700050000,
                  problem = \<lparr>contestId = None, index = js ''A''\<rparr>\<rparr>]\<rparr>
      else Inl RequestFailed)"

text \<open>
  The tokens separated by white space, as the specification words the handle argument:
  the maximal runs of code units that are not white space. \<open>secondToken\<close> is the
  second of them. These two follow the specification, not the source, and are compared
  with \<open>handleArg\<close> below.
\<close>

fun whitespaceTokens :: "jsstring \<Rightarrow> jsstring list" where
  "whitespaceTokens [] = []"
| "whitespaceTokens (c # cs) =
     (if isWhiteSpace c then whitespaceTokens cs
      else if cs = [] \<or> isWhiteSpace (hd cs) then [c] # whitespaceTokens cs
      else (case whitespaceTokens cs of [] \<Rightarrow> [[c]] | t # ts \<Rightarrow> (c # t) # ts))"

definition secondToken :: "jsstring \<Rightarrow> jsstring option" where
  "secondToken s = (case whitespaceTokens s of _ # h # _ \<Rightarrow> Some h | _ \<Rightarrow> None)"

text \<open>\<open>pieces.join(sep)\<close>, the inverse of \<open>split\<close>.\<close>

fun joinWith :: "code_unit \<Rightarrow> jsstring list \<Rightarrow> jsstring" where
  "joinWith sep [] = []"
| "joinWith sep [t] = t"
| "joinWith sep (t # ts) = t @ sep # joinWith sep ts"

text \<open>The state after the first add command of the group of \<open>groupMessage\<close>.\<close>

definition firstAdd :: world where
  "firstAdd =
     snd (onMessage (demoEnv demoJudge) (groupMessage (js ''@CpTrackBuddybot /add h1''))
            (demoWorld (Some [])))"



section \<open>Number formatting and problem keys\<close>













text \<open>
  Local midnight falls on a whole second, so a creation time in seconds is at or after
  \<open>startOfToday\<close> exactly when it is at or after local midnight.
\<close>

lemma startOfToday_whole_second:
  assumes "localMidnightMs e mod 1000 = 0"
  shows "startOfToday e \<le> t \<longleftrightarrow> localMidnightMs e \<le> 1000 * t"
proof -
  from assms have "localMidnightMs e = 1000 * startOfToday e"
    by (simp add: startOfToday_def mod_eq_0_iff_dvd)
  then show ?thesis by (metis mult_le_cancel_left_pos zero_less_numeral)
qed



section \<open>The judge client counts the problems solved today\<close>



section \<open>String methods\<close>

lemma startsWith_iff: "startsWith s p \<longleftrightarrow> (\<exists>r. s = p @ r)"
proof
  assume "startsWith s p"
  then have "s = p @ drop (length p) s"
    by (metis append_take_drop_id startsWith_def)
  then show "\<exists>r. s = p @ r" ..
next
  assume "\<exists>r. s = p @ r"
  then show "startsWith s p" by (auto simp: startsWith_def)
qed

lemma str_includes_iff: "str_includes s p \<longleftrightarrow> (\<exists>a b. s = a @ p @ b)"
proof (induction s)
  case Nil
  then show ?case by auto
next
  case (Cons c cs)
  show ?case
  proof
    assume "str_includes (c # cs) p"
    then consider "startsWith (c # cs) p" | "str_includes cs p" by auto
    then show "\<exists>a b. c # cs = a @ p @ b"
    proof cases
      case 1
      then obtain r where "c # cs = [] @ p @ r" by (auto simp: startsWith_iff)
      then show ?thesis by blast
    next
      case 2
      with Cons obtain a b where "cs = a @ p @ b" by auto
      then have "c # cs = (c # a) @ p @ b" by simp
      then show ?thesis by blast
    qed
  next
    assume "\<exists>a b. c # cs = a @ p @ b"
    then obtain a b where ab: "c # cs = a @ p @ b" by auto
    show "str_includes (c # cs) p"
    proof (cases a)
      case Nil
      with ab have "startsWith (c # cs) p" by (auto simp: startsWith_iff)
      then show ?thesis by simp
    next
      case (Cons x a')
      with ab have "cs = a' @ p @ b" by simp
      with Cons.IH have "str_includes cs p" by auto
      then show ?thesis by simp
    qed
  qed
qed

lemma length_replaceAll_ci: "length (replaceAll_ci p s) \<le> length s"
  by (induction p s rule: replaceAll_ci.induct) auto

lemma replaceAll_ci_shorter:
  "p \<noteq> [] \<Longrightarrow> str_includes_ci s p \<Longrightarrow> length (replaceAll_ci p s) < length s"
proof (induction s)
  case Nil
  then show ?case by simp
next
  case (Cons c cs)
  show ?case
  proof (cases "matchesAt p (c # cs)")
    case True
    have "length (replaceAll_ci p (drop (length p) (c # cs))) \<le> length (c # cs) - length p"
      using length_replaceAll_ci [of p "drop (length p) (c # cs)"] by simp
    with True Cons.prems(1) show ?thesis by (cases p) auto
  next
    case False
    with Cons show ?thesis by auto
  qed
qed

lemma mention_token_nonempty: "mention_token u \<Longrightarrow> u \<noteq> []"
  by (auto simp: mention_token_def)

section \<open>The mention gate\<close>

text \<open>
  C2. A message of a chat that is not one-to-one, whose text does not contain the bot's
  mention token, leaves the state as it is: no message is sent, and the collection is
  neither read nor written (\<open>sent\<close>, \<open>storeLog\<close> and \<open>groupsCollection\<close> are
  fields of the state).
\<close>

theorem group_message_without_mention_ignored:
  assumes "chat_type (chat msg) \<noteq> js ''private''"
    and "\<not> str_includes (textOf msg) (botUsername w)"
  shows "onMessage e msg w = (None, w)"
  using assms by (simp add: onMessage_def ignored_def)

text \<open>An add command without the mention, in a group chat, is not answered.\<close>

theorem group_message_without_mention_example:
  "onMessage (demoEnv demoJudge) (groupMessage (js ''/add tourist''))
     (demoWorld (Some [])) = (None, demoWorld (Some []))"
  using group_message_without_mention_ignored
    [of "groupMessage (js ''/add tourist'')" "demoWorld (Some [])" "demoEnv demoJudge"]
  by (simp add: groupMessage_def demoWorld_def textOf_def js_def startsWith_def)

text \<open>
  C10. The gate compares letter by letter, the removal of the mention ignores letter
  case: a group message that has the mention only in another letter case is ignored
  like one without it, although removing the mention would have shortened its text.
\<close>

theorem mention_in_other_case_ignored:
  assumes "mention_token (botUsername w)"
    and "chat_type (chat msg) \<noteq> js ''private''"
    and "str_includes_ci (textOf msg) (botUsername w)"
    and "\<not> str_includes (textOf msg) (botUsername w)"
  shows "onMessage e msg w = (None, w)
    \<and> length (replaceAll_ci (botUsername w) (textOf msg)) < length (textOf msg)"
  using assms
  by (simp add: onMessage_def ignored_def replaceAll_ci_shorter mention_token_nonempty)

text \<open>The lower-case mention in front of an add command, in a group chat.\<close>

theorem mention_in_other_case_example:
  "onMessage (demoEnv demoJudge) (groupMessage (js ''@cptrackbuddybot /add tourist''))
     (demoWorld (Some [])) = (None, demoWorld (Some []))
   \<and> replaceAll_ci (js ''@CpTrackBuddybot'') (js ''@cptrackbuddybot /add tourist'')
       = js '' /add tourist''"
  using mention_in_other_case_ignored
    [of "demoWorld (Some [])" "groupMessage (js ''@cptrackbuddybot /add tourist'')"
        "demoEnv demoJudge"]
  by (simp add: groupMessage_def demoWorld_def textOf_def js_def startsWith_def
        mention_token_def isWordChar_def matchesAt_def canonicalize_def)

section \<open>The add command\<close>

text \<open>
  The theorems of this section are about a message that passes the gate and whose
  cleaned text starts with \<open>/add\<close> and has a handle as its second piece.
\<close>

lemma onMessage_add:
  assumes "\<not> ignored w msg" and "startsWith (cleanedText w msg) (js ''/add'')"
    and "handleArg (cleanedText w msg) = Some h" and "h \<noteq> []"
  shows "onMessage e msg w = addHandle e msg h w"
  using assms by (simp add: onMessage_def addCommand_def)

lemma find_handle_None: "h \<notin> handle ` set us \<Longrightarrow> find (\<lambda>u. handle u = h) us = None"
  by (auto simp: find_None_iff)

lemma find_handle_Some: "h \<in> handle ` set us \<Longrightarrow> \<exists>u. find (\<lambda>u. handle u = h) us = Some u"
  by (cases "find (\<lambda>u. handle u = h) us") (auto simp: find_None_iff)

lemma find_setUsers:
  "find (\<lambda>g. groupId g = gid) docs = Some g \<Longrightarrow>
   find (\<lambda>g. groupId g = gid) (setUsers gid us docs) = Some (g\<lparr>users := Some us\<rparr>)"
  by (induction docs) (auto split: if_splits)

text \<open>The first add command of a group, evaluated.\<close>

lemma firstAdd_eq:
  "firstAdd =
     \<lparr>botUsername = js ''@CpTrackBuddybot'',
      groupsCollection = Some [demoGroup [js ''h1'']],
      sent = [\<lparr>chatId = - 1001, body = createdText (js ''h1''), parse_mode = None\<rparr>],
      judgeCalls = [],
      storeLog = [FindOne (- 1001), InsertOne (demoGroup [js ''h1''])]\<rparr>"
  by (simp add: firstAdd_def groupMessage_def demoWorld_def demoEnv_def demoGroup_def textOf_def
        js_def startsWith_def matchesAt_def canonicalize_def ignored_def cleanedText_def
        trim_def isWhiteSpace_def onMessage_def addCommand_def handleArg_def addHandle_def
        addToGroup_def findGroup_def insertOne_def sendMessage_def Let_def)

text \<open>
  C4. An add command with handle \<open>h\<close> in a chat without a document: when the
  collection answers and the chat platform accepts the message, the handler appends
  one document to the collection, with the users list \<open>[{handle: h}]\<close>, and sends
  one message, the confirmation of the creation.
\<close>

theorem add_creates_group:
  assumes "mention_token (botUsername w)" and "\<not> ignored w msg"
    and "startsWith (cleanedText w msg) (js ''/add'')"
    and "handleArg (cleanedText w msg) = Some h" and "h \<noteq> []"
    and "groupsCollection w = Some docs"
    and "find (\<lambda>g. groupId g = chat_id (chat msg)) docs = None"
    and "\<not> findOne_fails e" and "\<not> insertOne_fails e"
    and "\<not> sendMessage_fails e (length (sent w))"
  shows "onMessage e msg w =
    (None, w\<lparr>groupsCollection := Some (docs @ [newGroup msg h]),
             sent := sent w @
               [reply msg
                 (0x2705 # js '' Added '' @ h @ js '' and created new tracking for this group.'')],
             storeLog := storeLog w @ [FindOne (chat_id (chat msg)), InsertOne (newGroup msg h)]\<rparr>)"
  using assms(6-10) unfolding onMessage_add [OF assms(2-5)]
  by (simp add: addHandle_def addToGroup_def findGroup_def insertOne_def sendMessage_def
        createdText_def newGroup_def reply_def Let_def)

text \<open>The first add command of a group, on an empty collection.\<close>

theorem add_creates_group_example:
  "onMessage (demoEnv demoJudge) (groupMessage (js ''@CpTrackBuddybot /add h1''))
     (demoWorld (Some []))
   = (None,
      \<lparr>botUsername = js ''@CpTrackBuddybot'',
       groupsCollection = Some
         [\<lparr>groupId = - 1001, groupName = Some (js ''cf-team''),
           users = Some [\<lparr>handle = js ''h1''\<rparr>]\<rparr>],
       sent =
         [\<lparr>chatId = - 1001,
            body = 0x2705 # js '' Added h1 and created new tracking for this group.'',
            parse_mode = None\<rparr>],
       judgeCalls = [],
       storeLog = [FindOne (- 1001),
         InsertOne \<lparr>groupId = - 1001, groupName = Some (js ''cf-team''),
           users = Some [\<lparr>handle = js ''h1''\<rparr>]\<rparr>]\<rparr>)"
  using add_creates_group
    [of "demoWorld (Some [])" "groupMessage (js ''@CpTrackBuddybot /add h1'')" "js ''h1''" "[]"
        "demoEnv demoJudge"]
  by (simp add: groupMessage_def demoWorld_def demoEnv_def textOf_def js_def startsWith_def
        mention_token_def isWordChar_def matchesAt_def canonicalize_def ignored_def
        cleanedText_def trim_def isWhiteSpace_def handleArg_def newGroup_def reply_def
        createdText_def)

text \<open>
  C5. An add command with a handle \<open>h\<close> that the users list of the chat's document
  does not contain: when the collection answers and the chat platform accepts the
  message, the handler stores the former list with \<open>{handle: h}\<close> at its end as
  the users list of that document and sends one message, the confirmation of the
  addition.
\<close>

theorem add_appends_handle:
  assumes "mention_token (botUsername w)" and "\<not> ignored w msg"
    and "startsWith (cleanedText w msg) (js ''/add'')"
    and "handleArg (cleanedText w msg) = Some h" and "h \<noteq> []"
    and "groupsCollection w = Some docs"
    and "find (\<lambda>g. groupId g = chat_id (chat msg)) docs = Some g"
    and "users g = Some us" and "h \<notin> handle ` set us"
    and "\<not> findOne_fails e" and "\<not> updateOne_fails e"
    and "\<not> sendMessage_fails e (length (sent w))"
  shows "onMessage e msg w =
    (None, w\<lparr>groupsCollection :=
               Some (setUsers (chat_id (chat msg)) (us @ [\<lparr>handle = h\<rparr>]) docs),
             sent := sent w @ [reply msg (0x2705 # js '' Added '' @ h @ js '' to tracking list.'')],
             storeLog := storeLog w @
               [FindOne (chat_id (chat msg)),
                UpdateOne (chat_id (chat msg)) (us @ [\<lparr>handle = h\<rparr>])]\<rparr>)
    \<and> find (\<lambda>g. groupId g = chat_id (chat msg))
          (setUsers (chat_id (chat msg)) (us @ [\<lparr>handle = h\<rparr>]) docs)
        = Some (g\<lparr>users := Some (us @ [\<lparr>handle = h\<rparr>])\<rparr>)"
  using assms(6-8,10-12) find_handle_None [OF assms(9)] find_setUsers [OF assms(7)]
  unfolding onMessage_add [OF assms(2-5)]
  by (simp add: addHandle_def addToGroup_def findGroup_def updateOne_def sendMessage_def
        addedText_def reply_def Let_def)

text \<open>\<open>/add h1\<close> and then \<open>/add h2\<close> in the same group: the list is \<open>h1\<close>, \<open>h2\<close>.\<close>

theorem add_appends_handle_example:
  "onMessage (demoEnv demoJudge) (groupMessage (js ''@CpTrackBuddybot /add h2'')) firstAdd
   = (None,
      \<lparr>botUsername = js ''@CpTrackBuddybot'',
       groupsCollection = Some [demoGroup [js ''h1'', js ''h2'']],
       sent =
         [\<lparr>chatId = - 1001,
            body = 0x2705 # js '' Added h1 and created new tracking for this group.'',
            parse_mode = None\<rparr>,
          \<lparr>chatId = - 1001, body = 0x2705 # js '' Added h2 to tracking list.'',
            parse_mode = None\<rparr>],
       judgeCalls = [],
       storeLog = [FindOne (- 1001), InsertOne (demoGroup [js ''h1'']), FindOne (- 1001),
         UpdateOne (- 1001) [\<lparr>handle = js ''h1''\<rparr>, \<lparr>handle = js ''h2''\<rparr>]]\<rparr>)"
  using add_appends_handle
    [of firstAdd "groupMessage (js ''@CpTrackBuddybot /add h2'')" "js ''h2''"
        "[demoGroup [js ''h1'']]" "demoGroup [js ''h1'']" "[\<lparr>handle = js ''h1''\<rparr>]"
        "demoEnv demoJudge"]
  by (simp add: firstAdd_eq groupMessage_def demoEnv_def demoGroup_def textOf_def js_def
        startsWith_def mention_token_def isWordChar_def matchesAt_def canonicalize_def
        ignored_def cleanedText_def trim_def isWhiteSpace_def handleArg_def reply_def
        createdText_def addedText_def alreadyText_def)

text \<open>
  C6. An add command with a handle that is in the users list of the chat's document,
  code unit for code unit: the handler sends one message, the warning that the handle
  is tracked already, and reads the collection without writing to it. The handler's
  promise settles as the promise of that \<open>sendMessage\<close> does.
\<close>

theorem add_known_handle_unchanged:
  assumes "mention_token (botUsername w)" and "\<not> ignored w msg"
    and "startsWith (cleanedText w msg) (js ''/add'')"
    and "handleArg (cleanedText w msg) = Some h" and "h \<noteq> []"
    and "groupsCollection w = Some docs"
    and "find (\<lambda>g. groupId g = chat_id (chat msg)) docs = Some g"
    and "users g = Some us" and "h \<in> handle ` set us"
    and "\<not> findOne_fails e"
  shows "onMessage e msg w =
    (if sendMessage_fails e (length (sent w)) then Some SendFailed else None,
     w\<lparr>sent := sent w @
         [reply msg ([0x26A0, 0xFE0F] @ js '' '' @ h @ js '' is already being tracked.'')],
       storeLog := storeLog w @ [FindOne (chat_id (chat msg))]\<rparr>)"
proof -
  from find_handle_Some [OF assms(9)] obtain u where "find (\<lambda>u. handle u = h) us = Some u" ..
  with assms(6-8,10) show ?thesis
    unfolding onMessage_add [OF assms(2-5)]
    by (simp add: addHandle_def addToGroup_def findGroup_def sendMessage_def alreadyText_def
          reply_def Let_def)
qed

text \<open>\<open>/add h1\<close> twice in the same group: the list stays \<open>h1\<close>.\<close>

theorem add_known_handle_example:
  "onMessage (demoEnv demoJudge) (groupMessage (js ''@CpTrackBuddybot /add h1'')) firstAdd
   = (None,
      \<lparr>botUsername = js ''@CpTrackBuddybot'',
       groupsCollection = Some [demoGroup [js ''h1'']],
       sent =
         [\<lparr>chatId = - 1001,
            body = 0x2705 # js '' Added h1 and created new tracking for this group.'',
            parse_mode = None\<rparr>,
          \<lparr>chatId = - 1001, body = [0x26A0, 0xFE0F] @ js '' h1 is already being tracked.'',
            parse_mode = None\<rparr>],
       judgeCalls = [],
       storeLog = [FindOne (- 1001), InsertOne (demoGroup [js ''h1'']), FindOne (- 1001)]\<rparr>)"
  using add_known_handle_unchanged
    [of firstAdd "groupMessage (js ''@CpTrackBuddybot /add h1'')" "js ''h1''"
        "[demoGroup [js ''h1'']]" "demoGroup [js ''h1'']" "[\<lparr>handle = js ''h1''\<rparr>]"
        "demoEnv demoJudge"]
  by (simp add: firstAdd_eq groupMessage_def demoEnv_def demoGroup_def textOf_def js_def
        startsWith_def mention_token_def isWordChar_def matchesAt_def canonicalize_def
        ignored_def cleanedText_def trim_def isWhiteSpace_def handleArg_def reply_def
        createdText_def addedText_def alreadyText_def)

section \<open>The report\<close>

text \<open>
  Any other text that passes the gate asks for the report. When no \<open>sendMessage\<close> is
  rejected, the loop sends one message for each tracked handle, in the order of the
  list, whether the judge client returns or throws.
\<close>

lemma onMessage_report:
  assumes "\<not> ignored w msg" and "\<not> startsWith (cleanedText w msg) (js ''/add'')"
  shows "onMessage e msg w = report e msg w"
  using assms by (simp add: onMessage_def)








text \<open>
  C7. The report for a chat without a document, or whose document has no users list
  or an empty one: the handler sends one message, that no users are tracked and how
  to add one, and does not call the judge.
\<close>

theorem report_without_users:
  assumes "mention_token (botUsername w)" and "\<not> ignored w msg"
    and "\<not> startsWith (cleanedText w msg) (js ''/add'')"
    and "groupsCollection w = Some docs"
    and "find (\<lambda>g. groupId g = chat_id (chat msg)) docs = None
       \<or> (\<exists>g. find (\<lambda>g. groupId g = chat_id (chat msg)) docs = Some g
              \<and> (users g = None \<or> users g = Some []))"
    and "\<not> findOne_fails e"
    and "\<not> sendMessage_fails e (length (sent w))"
  shows "onMessage e msg w =
    (None, w\<lparr>storeLog := storeLog w @ [FindOne (chat_id (chat msg))],
             sent := sent w @
               [reply msg
                 (js ''No users are being tracked in this group. Use /add <handle> to add someone.'')]\<rparr>)
    \<and> judgeCalls (snd (onMessage e msg w)) = judgeCalls w"
  using assms(4-7) unfolding onMessage_report [OF assms(2,3)]
  by (auto simp: report_def reportBody_def findGroup_def sendMessage_def noUsersText_def
        reply_def Let_def)

text \<open>A question to the bot in a group whose users list is empty.\<close>

theorem report_without_users_example:
  "onMessage (demoEnv demoJudge) (groupMessage (js ''@CpTrackBuddybot how are we doing?''))
     (demoWorld (Some [demoGroup []]))
   = (None,
      \<lparr>botUsername = js ''@CpTrackBuddybot'',
       groupsCollection = Some [demoGroup []],
       sent =
         [\<lparr>chatId = - 1001,
            body = js ''No users are being tracked in this group. Use /add <handle> to add someone.'',
            parse_mode = None\<rparr>],
       judgeCalls = [],
       storeLog = [FindOne (- 1001)]\<rparr>)"
  using report_without_users
    [of "demoWorld (Some [demoGroup []])"
        "groupMessage (js ''@CpTrackBuddybot how are we doing?'')" "[demoGroup []]"
        "demoEnv demoJudge"]
  by (simp add: groupMessage_def demoWorld_def demoEnv_def demoGroup_def textOf_def js_def
        startsWith_def mention_token_def isWordChar_def matchesAt_def canonicalize_def
        ignored_def cleanedText_def trim_def isWhiteSpace_def reply_def)

section \<open>The two branches differ\<close>











section \<open>The handle argument of the add command\<close>

text \<open>
  \<open>split(" ")\<close> cuts the text at every single space: no piece contains a space, and
  the pieces joined by spaces are the text again.
\<close>

lemma split_str_nonempty: "split_str sep s \<noteq> []"
  by (induction s) (auto split: list.splits)

lemma split_str_no_sep: "t \<in> set (split_str sep s) \<Longrightarrow> sep \<notin> set t"
  by (induction s arbitrary: t) (auto split: if_splits list.splits)

lemma joinWith_split_str: "joinWith sep (split_str sep s) = s"
proof (induction s)
  case Nil
  show ?case by simp
next
  case (Cons c cs)
  show ?case
  proof (cases "c = sep")
    case True
    with Cons show ?thesis
      by (cases "split_str sep cs") (simp_all add: split_str_nonempty)
  next
    case False
    with Cons show ?thesis
      by (cases "split_str sep cs"; cases "tl (split_str sep cs)") auto
  qed
qed

text \<open>
  So the handle argument is the piece between the first space and the next one, or the
  end of the text; a text without a space has none.
\<close>

lemma split_str_no_sep_single: "sep \<notin> set s \<Longrightarrow> split_str sep s = [s]"
  by (induction s) auto

lemma split_str_first_piece:
  "sep \<notin> set a \<Longrightarrow> split_str sep (a @ sep # rest) = a # split_str sep rest"
  by (induction a) (auto split: list.splits)

lemma handleArg_no_space: "0x20 \<notin> set c \<Longrightarrow> handleArg c = None"
  by (simp add: handleArg_def split_str_no_sep_single)

lemma handleArg_last_piece:
  "0x20 \<notin> set a \<Longrightarrow> 0x20 \<notin> set h \<Longrightarrow> handleArg (a @ 0x20 # h) = Some h"
  by (simp add: handleArg_def split_str_first_piece split_str_no_sep_single)

lemma handleArg_inner_piece:
  "0x20 \<notin> set a \<Longrightarrow> 0x20 \<notin> set h \<Longrightarrow> handleArg (a @ 0x20 # h @ 0x20 # r) = Some h"
  by (simp add: handleArg_def split_str_first_piece split: list.splits)


text \<open>
  C8, as the claim words it, fails: the handle is not the second token separated by
  white space. With a tab between the command and the handle the second such token
  is the handle, but the text has no space, \<open>split(" ")[1]\<close> is \<open>undefined\<close> and
  the handler answers with the usage error.
\<close>

theorem add_tab_separated_handle_counterexample:
  "secondToken (cleanedText (demoWorld (Some []))
       (privateMessage (js ''/add'' @ [0x09] @ js ''tourist''))) = Some (js ''tourist'')
   \<and> handleArg (cleanedText (demoWorld (Some []))
       (privateMessage (js ''/add'' @ [0x09] @ js ''tourist''))) = None
   \<and> onMessage (demoEnv demoJudge) (privateMessage (js ''/add'' @ [0x09] @ js ''tourist''))
       (demoWorld (Some []))
     = (None,
        \<lparr>botUsername = js ''@CpTrackBuddybot'', groupsCollection = Some [],
         sent =
           [\<lparr>chatId = 42,
              body = 0x274C #
                js '' Please provide a Codeforces handle. Example: `/add tourist`'',
              parse_mode = Some (js ''Markdown'')\<rparr>],
         judgeCalls = [], storeLog = []\<rparr>)"
  by (simp add: privateMessage_def demoWorld_def demoEnv_def textOf_def js_def
        startsWith_def matchesAt_def canonicalize_def secondToken_def
        ignored_def cleanedText_def trim_def isWhiteSpace_def onMessage_def addCommand_def
        handleArg_def sendMessage_def usageText_def)

text \<open>
  C8, amended. For a message that passes the gate and whose cleaned text starts with
  \<open>/add\<close>, the handle argument is the second piece of the cleaned text cut at every
  single space (U+0020): the code units between the first space and the next space or,
  if there is none, the end of the text. When the text has no space, or that piece is
  empty, the handler sends the usage error with the Markdown option and does not touch
  the collection; otherwise it runs the \<open>try\<close> block of the add command with that
  piece as the handle.
\<close>

theorem add_handle_is_second_piece:
  assumes "mention_token (botUsername w)" and "\<not> ignored w msg"
    and "startsWith (cleanedText w msg) (js ''/add'')"
  shows
    "(0x20 \<notin> set (cleanedText w msg) \<longrightarrow>
        onMessage e msg w =
          (if sendMessage_fails e (length (sent w)) then Some SendFailed else None,
           w\<lparr>sent := sent w @
             [\<lparr>chatId = chat_id (chat msg),
               body = 0x274C #
                 js '' Please provide a Codeforces handle. Example: `/add tourist`'',
               parse_mode = Some (js ''Markdown'')\<rparr>]\<rparr>))
     \<and> (0x20 \<notin> set a \<and> 0x20 \<notin> set h
          \<and> (cleanedText w msg = a @ 0x20 # h \<or> cleanedText w msg = a @ 0x20 # h @ 0x20 # r)
        \<longrightarrow> onMessage e msg w =
          (if h = []
           then (if sendMessage_fails e (length (sent w)) then Some SendFailed else None,
                 w\<lparr>sent := sent w @
                   [\<lparr>chatId = chat_id (chat msg),
                     body = 0x274C #
                       js '' Please provide a Codeforces handle. Example: `/add tourist`'',
                     parse_mode = Some (js ''Markdown'')\<rparr>]\<rparr>)
           else addHandle e msg h w))"
proof -
  have run: "onMessage e msg w = addCommand e msg (cleanedText w msg) w"
    using assms(2,3) by (simp add: onMessage_def)
  have none: "handleArg (cleanedText w msg) = None" if "0x20 \<notin> set (cleanedText w msg)"
    using that by (rule handleArg_no_space)
  have some: "handleArg (cleanedText w msg) = Some h"
    if "0x20 \<notin> set a" "0x20 \<notin> set h"
      "cleanedText w msg = a @ 0x20 # h \<or> cleanedText w msg = a @ 0x20 # h @ 0x20 # r"
    using that handleArg_last_piece [of a h] handleArg_inner_piece [of a h r] by auto
  show ?thesis
    unfolding run
    by (auto simp: addCommand_def sendMessage_def usageText_def dest!: none some)
qed

text \<open>
  \<open>/add tourist now\<close> on an empty collection tracks \<open>tourist\<close>; with two spaces
  behind the command the second piece is empty and the usage error is sent.
\<close>

theorem add_handle_is_second_piece_example:
  "onMessage (demoEnv demoJudge) (privateMessage (js ''/add tourist now'')) (demoWorld (Some []))
   = (None,
      \<lparr>botUsername = js ''@CpTrackBuddybot'',
       groupsCollection = Some
         [\<lparr>groupId = 42, groupName = None, users = Some [\<lparr>handle = js ''tourist''\<rparr>]\<rparr>],
       sent =
         [\<lparr>chatId = 42,
            body = 0x2705 # js '' Added tourist and created new tracking for this group.'',
            parse_mode = None\<rparr>],
       judgeCalls = [],
       storeLog = [FindOne 42,
         InsertOne \<lparr>groupId = 42, groupName = None,
           users = Some [\<lparr>handle = js ''tourist''\<rparr>]\<rparr>]\<rparr>)
   \<and> onMessage (demoEnv demoJudge) (privateMessage (js ''/add  tourist'')) (demoWorld (Some []))
   = (None,
      \<lparr>botUsername = js ''@CpTrackBuddybot'', groupsCollection = Some [],
       sent =
         [\<lparr>chatId = 42,
            body = 0x274C # js '' Please provide a Codeforces handle. Example: `/add tourist`'',
            parse_mode = Some (js ''Markdown'')\<rparr>],
       judgeCalls = [], storeLog = []\<rparr>)"
  using add_handle_is_second_piece
    [where w = "demoWorld (Some [])" and msg = "privateMessage (js ''/add tourist now'')"
       and e = "demoEnv demoJudge" and a = "js ''/add''" and h = "js ''tourist''"
       and r = "js ''now''"]
    add_handle_is_second_piece
    [where w = "demoWorld (Some [])" and msg = "privateMessage (js ''/add  tourist'')"
       and e = "demoEnv demoJudge" and a = "js ''/add''" and h = "[]"
       and r = "js ''tourist''"]
  by (simp add: privateMessage_def demoWorld_def demoEnv_def textOf_def js_def
        startsWith_def mention_token_def isWordChar_def matchesAt_def canonicalize_def
        ignored_def cleanedText_def trim_def isWhiteSpace_def addHandle_def addToGroup_def
        findGroup_def insertOne_def sendMessage_def createdText_def Let_def)



end
